theory Spec2Isabelle
  imports Main "HOL-Library.Word" "HOL-Library.Sublist"
begin

section \<open>Data model of the tree options (tree_options.go)\<close>

text \<open>
  \<^verbatim>\<open>time.Duration\<close> is a signed 64-bit count of nanoseconds. The options only store
  durations; the one product computed in the file is \<^verbatim>\<open>5 * time.Second\<close>.
\<close>

type_synonym Duration = "64 word"

definition Second :: Duration where
  "Second = 1000000000"

text \<open>
  Modelled from the spec: the declarations of \<^verbatim>\<open>Restart\<close>, \<^verbatim>\<open>Shutdown\<close> and
  \<^verbatim>\<open>Strategy\<close> are not part of the file; the spec gives each as a closed set of
  variants (Permanent, Transient, Temporary; Timeout(d), Infinity; OneForOne, OneForAll,
  RestForOne). In Go all three are nilable, so a field holding one is an \<open>option\<close>,
  \<open>None\<close> being \<^verbatim>\<open>nil\<close>.
\<close>

datatype Restart = Permanent | Transient | Temporary

datatype Shutdown = Timeout Duration | Infinity

datatype Strategy = OneForOne | OneForAll | RestForOne

text \<open>
  A \<^verbatim>\<open>ChildProcess\<close> is a function value. It is either a function supplied by the
  caller (\<open>UserFunc f\<close>, for \<open>f\<close> of an arbitrary type \<open>'f\<close>) or the method value
  \<^verbatim>\<open>subTree.Start\<close> bound to the tree at a given address (\<open>TreeStart a\<close>); \<^verbatim>\<open>nil\<close>
  is \<open>None\<close> in the field that holds it.
\<close>

datatype 'f ChildProcess = UserFunc 'f | TreeStart nat

record 'f ChildProcessSpecification =
  Name :: string
  Restart :: "Restart option"
  Start :: "'f ChildProcess option"
  Shutdown :: "Shutdown option"

text \<open>
  The closure stored in a fresh runtime state prints one line on the tree's logger
  when it is called; it is represented by the line it prints.
\<close>

datatype StopFunc = LogPrintln string

record state =
  stop :: "StopFunc option"

typedecl Logger

text \<open>
  The fields of \<^verbatim>\<open>Tree\<close> that the options read or write. \<^verbatim>\<open>maxR\<close> is a Go
  \<^verbatim>\<open>int\<close> that is only stored, never computed with. \<^verbatim>\<open>processIndex\<close> is a Go map:
  \<open>None\<close> is the \<^verbatim>\<open>nil\<close> map of a zero \<^verbatim>\<open>Tree\<close>, which can be read but not
  written. Every other field of the struct lives in the record's extension part
  (\<open>Tree.more\<close>), which no option touches.
\<close>

record 'f Tree =
  maxR :: int
  maxT :: Duration
  strategy :: "Strategy option"
  processes :: "'f ChildProcessSpecification list"
  processIndex :: "(string \<rightharpoonup> nat) option"
  states :: "state list"
  logger :: "Logger option"

text \<open>
  An option is a \<^verbatim>\<open>func(*Tree)\<close>: it mutates the tree and either returns or panics.
  The tree it leaves behind is part of the result in both cases, since the writes made
  before a panic stay in the tree.
\<close>

datatype outcome = Returned | Panicked string

type_synonym ('f, 'z) TreeOption =
  "('f, 'z) Tree_scheme \<Rightarrow> outcome \<times> ('f, 'z) Tree_scheme"

text \<open>Two statements in sequence: the second runs only if the first returned.\<close>

definition seq_opt :: "('f, 'z) TreeOption \<Rightarrow> ('f, 'z) TreeOption \<Rightarrow> ('f, 'z) TreeOption" where
  "seq_opt f g t = (case f t of
       (Returned, t') \<Rightarrow> g t'
     | (Panicked msg, t') \<Rightarrow> (Panicked msg, t'))"

section \<open>Restart intensity and strategy options\<close>

definition WithRestartIntensity :: "int \<Rightarrow> Duration \<Rightarrow> ('f, 'z) TreeOption" where
  "WithRestartIntensity r d t = (Returned, t\<lparr>maxR := r, maxT := d\<rparr>)"

definition WithRestartStrategy :: "Strategy option \<Rightarrow> ('f, 'z) TreeOption" where
  "WithRestartStrategy s t = (Returned, t\<lparr>strategy := s\<rparr>)"

definition WithSpecification :: "int \<Rightarrow> Duration \<Rightarrow> Strategy option \<Rightarrow> ('f, 'z) TreeOption" where
  "WithSpecification r d s = seq_opt (WithRestartIntensity r d) (WithRestartStrategy s)"

definition NeverHalt :: "('f, 'z) TreeOption" where
  "NeverHalt t = (Returned, t\<lparr>maxR := - 1\<rparr>)"

definition DefaultMaxR :: int where
  "DefaultMaxR = 1"

definition DefaultMaxT :: Duration where
  "DefaultMaxT = 5 * Second"

definition DefaultRestartIntensity :: "('f, 'z) TreeOption" where
  "DefaultRestartIntensity t = (Returned, t\<lparr>maxR := DefaultMaxR, maxT := DefaultMaxT\<rparr>)"

definition DefaultRestartStrategy :: "('f, 'z) TreeOption" where
  "DefaultRestartStrategy t = (Returned, t\<lparr>strategy := Some OneForOne\<rparr>)"

definition WithLogger :: "Logger option \<Rightarrow> ('f, 'z) TreeOption" where
  "WithLogger l t = (Returned, t\<lparr>logger := l\<rparr>)"

section \<open>Registering children\<close>

text \<open>
  \<^verbatim>\<open>%d\<close> of a positive \<^verbatim>\<open>int\<close>: its decimal digits, most significant first. The
  number printed is always \<^verbatim>\<open>len(t.processes) + 1\<close>, so it is a positive natural.
\<close>

fun itoa :: "nat \<Rightarrow> string" where
  "itoa n = (if n < 10 then [''0123456789'' ! n]
             else itoa (n div 10) @ [''0123456789'' ! (n mod 10)])"

declare itoa.simps [simp del]

text \<open>The two-valued map read \<^verbatim>\<open>_, ok := m[k]\<close>; reading a \<^verbatim>\<open>nil\<close> map finds nothing.\<close>

definition has_key :: "('k \<rightharpoonup> 'v) option \<Rightarrow> 'k \<Rightarrow> bool" where
  "has_key m k = (case m of None \<Rightarrow> False | Some f \<Rightarrow> f k \<noteq> None)"

text \<open>
  The specification as \<^verbatim>\<open>Process\<close> rewrites its own copy of it before validating it,
  for the child number \<open>n\<close> (the source's \<^verbatim>\<open>id\<close>) and the index seen at the call:
  the name is generated when empty, suffixed once when already taken, and the two
  policies are defaulted.
  \<open>dct\<close> is the constant \<^verbatim>\<open>DefaultChildProcessTimeout\<close>, declared outside the file.
\<close>

definition fill_spec ::
  "Duration \<Rightarrow> (string \<rightharpoonup> nat) option \<Rightarrow> nat \<Rightarrow> 'f ChildProcessSpecification
     \<Rightarrow> 'f ChildProcessSpecification" where
  "fill_spec dct idx n spec =
     (let spec = (if Name spec = [] then spec\<lparr>Name := ''childproc '' @ itoa n\<rparr> else spec);
          spec = (if has_key idx (Name spec)
                  then spec\<lparr>Name := Name spec @ '' '' @ itoa n\<rparr> else spec);
          spec = (if Restart spec = None then spec\<lparr>Restart := Some Permanent\<rparr> else spec);
          spec = (if Shutdown spec = None then spec\<lparr>Shutdown := Some (Timeout dct)\<rparr> else spec)
      in spec)"

definition Process ::
  "Duration \<Rightarrow> 'f ChildProcessSpecification \<Rightarrow> ('f, 'z) TreeOption" where
  "Process dct spec t =
     (let n = length (processes t) + 1;
          t = t\<lparr>states := states t @ [\<lparr>stop = Some (LogPrintln ''stopped before start'')\<rparr>]\<rparr>;
          spec = fill_spec dct (processIndex t) n spec
      in if Start spec = None
         then (Panicked ''child process must always have a function'', t)
         else
           (let t = t\<lparr>processes := processes t @ [spec]\<rparr>
            in case processIndex t of
                 None \<Rightarrow> (Panicked ''assignment to entry in nil map'', t)
               | Some m \<Rightarrow> (Returned, t\<lparr>processIndex := Some (m(Name spec \<mapsto> n - 1))\<rparr>)))"

text \<open>
  The loop of \<^verbatim>\<open>Processes\<close> over its arguments; a panic of one \<^verbatim>\<open>Process\<close> call
  ends the loop.
\<close>

fun Processes :: "Duration \<Rightarrow> 'f ChildProcess option list \<Rightarrow> ('f, 'z) TreeOption" where
  "Processes dct [] t = (Returned, t)"
| "Processes dct (p # ps) t =
     seq_opt (Process dct \<lparr>Name = [], Restart = Some Permanent, Start = p, Shutdown = None\<rparr>)
             (Processes dct ps) t"

definition WithTree :: "Duration \<Rightarrow> nat \<Rightarrow> ('f, 'z) TreeOption" where
  "WithTree dct subTree =
     Process dct \<lparr>Name = [], Restart = Some Permanent,
                  Start = Some (TreeStart subTree), Shutdown = Some Infinity\<rparr>"

section \<open>Sequences of registrations\<close>

text \<open>
  The three ways of registering children, as calls, and a sequence of such calls applied
  to one tree in order (a panic ends the sequence).
\<close>

datatype 'f Registration =
    CallProcess "'f ChildProcessSpecification"
  | CallProcesses "'f ChildProcess option list"
  | CallWithTree nat

fun register :: "Duration \<Rightarrow> 'f Registration \<Rightarrow> ('f, 'z) TreeOption" where
  "register dct (CallProcess spec) = Process dct spec"
| "register dct (CallProcesses ps) = Processes dct ps"
| "register dct (CallWithTree subTree) = WithTree dct subTree"

fun register_all :: "Duration \<Rightarrow> 'f Registration list \<Rightarrow> ('f, 'z) TreeOption" where
  "register_all dct [] t = (Returned, t)"
| "register_all dct (r # rs) t = seq_opt (register dct r) (register_all dct rs) t"

text \<open>A tree with no children whose index map has been allocated.\<close>

definition empty_tree :: "'f Tree" where
  "empty_tree = \<lparr>maxR = 0, maxT = 0, strategy = None, processes = [],
                 processIndex = Some Map.empty, states = [], logger = None\<rparr>"

section \<open>Facts about sequencing and \<^verbatim>\<open>Process\<close>\<close>

lemma seq_opt_cases:
  "seq_opt f g t = (if fst (f t) = Returned then g (snd (f t)) else f t)"
  by (cases "f t"; cases "fst (f t)") (auto simp: seq_opt_def)

lemma Start_fill_spec: "Start (fill_spec dct idx n spec) = Start spec"
  by (simp add: fill_spec_def Let_def)

lemma Restart_fill_spec:
  "Restart (fill_spec dct idx n spec) =
     (case Restart spec of None \<Rightarrow> Some Permanent | Some r \<Rightarrow> Some r)"
  by (simp add: fill_spec_def Let_def split: option.splits)

lemma Shutdown_fill_spec:
  "Shutdown (fill_spec dct idx n spec) =
     (case Shutdown spec of None \<Rightarrow> Some (Timeout dct) | Some s \<Rightarrow> Some s)"
  by (simp add: fill_spec_def Let_def split: option.splits)

lemma Process_processes:
  "processes (snd (Process dct spec t)) =
     (if Start spec = None then processes t
      else processes t @ [fill_spec dct (processIndex t) (length (processes t) + 1) spec])"
  by (simp add: Process_def Let_def Start_fill_spec split: option.splits)

lemma Process_states:
  "states (snd (Process dct spec t)) =
     states t @ [\<lparr>stop = Some (LogPrintln ''stopped before start'')\<rparr>]"
  by (simp add: Process_def Let_def split: option.splits)

lemma Process_outcome:
  "fst (Process dct spec t) =
     (if Start spec = None then Panicked ''child process must always have a function''
      else if processIndex t = None then Panicked ''assignment to entry in nil map''
      else Returned)"
  by (simp add: Process_def Let_def Start_fill_spec split: option.splits)

lemma Process_processIndex_None:
  "processIndex (snd (Process dct spec t)) = None \<longleftrightarrow> processIndex t = None"
  by (simp add: Process_def Let_def split: option.splits)

lemma Process_prefix: "prefix (processes t) (processes (snd (Process dct spec t)))"
  by (simp add: Process_processes)

lemma Processes_prefix: "prefix (processes t) (processes (snd (Processes dct ps t)))"
proof (induction ps arbitrary: t)
  case Nil
  show ?case by simp
next
  case (Cons p ps)
  let ?f = "Process dct \<lparr>Name = [], Restart = Some Permanent, Start = p, Shutdown = None\<rparr>"
  have step: "prefix (processes t) (processes (snd (?f t)))"
    by (rule Process_prefix)
  show ?case
  proof (cases "fst (?f t) = Returned")
    case True
    have "prefix (processes (snd (?f t))) (processes (snd (Processes dct ps (snd (?f t)))))"
      by (rule Cons.IH)
    with step True show ?thesis
      by (simp add: seq_opt_cases)
  next
    case False
    with step show ?thesis by (simp add: seq_opt_cases)
  qed
qed

lemma register_prefix: "prefix (processes t) (processes (snd (register dct r t)))"
  by (cases r) (simp_all add: Process_prefix Processes_prefix WithTree_def)

lemma register_all_prefix: "prefix (processes t) (processes (snd (register_all dct rs t)))"
proof (induction rs arbitrary: t)
  case Nil
  show ?case by simp
next
  case (Cons r rs)
  have step: "prefix (processes t) (processes (snd (register dct r t)))"
    by (rule register_prefix)
  have "prefix (processes (snd (register dct r t)))
          (processes (snd (register_all dct rs (snd (register dct r t)))))"
    by (rule Cons.IH)
  with step show ?case
    by (auto simp: seq_opt_cases)
qed

lemma Process_in_step:
  assumes "fst (Process dct spec t) \<noteq> Panicked ''child process must always have a function''"
  shows "length (processes (snd (Process dct spec t))) = Suc (length (processes t))"
  using assms by (simp add: Process_processes Process_outcome split: if_splits)

lemma Processes_in_step:
  "fst (Processes dct ps t) \<noteq> Panicked ''child process must always have a function'' \<Longrightarrow>
     length (states (snd (Processes dct ps t))) + length (processes t) =
     length (processes (snd (Processes dct ps t))) + length (states t)"
proof (induction ps arbitrary: t)
  case Nil
  show ?case by simp
next
  case (Cons p ps)
  let ?f = "Process dct \<lparr>Name = [], Restart = Some Permanent, Start = p, Shutdown = None\<rparr>"
  show ?case
  proof (cases "fst (?f t) = Returned")
    case True
    with Cons.prems have "fst (Processes dct ps (snd (?f t))) \<noteq>
        Panicked ''child process must always have a function''"
      by (simp add: seq_opt_cases)
    from Cons.IH [OF this] Process_in_step [of dct _ t] True show ?thesis
      by (simp add: seq_opt_cases Process_states)
  next
    case False
    with Cons.prems have "fst (?f t) \<noteq> Panicked ''child process must always have a function''"
      by (simp add: seq_opt_cases)
    from Process_in_step [OF this] False show ?thesis
      by (simp add: seq_opt_cases Process_states)
  qed
qed

lemma register_in_step:
  "fst (register dct r t) \<noteq> Panicked ''child process must always have a function'' \<Longrightarrow>
     length (states (snd (register dct r t))) + length (processes t) =
     length (processes (snd (register dct r t))) + length (states t)"
proof (cases r)
  case (CallProcess spec)
  assume "fst (register dct r t) \<noteq> Panicked ''child process must always have a function''"
  with CallProcess show ?thesis
    using Process_in_step [of dct spec t] by (simp add: Process_states)
next
  case (CallProcesses ps)
  assume "fst (register dct r t) \<noteq> Panicked ''child process must always have a function''"
  with CallProcesses show ?thesis
    using Processes_in_step [of dct ps t] by simp
next
  case (CallWithTree a)
  assume "fst (register dct r t) \<noteq> Panicked ''child process must always have a function''"
  with CallWithTree show ?thesis
    using Process_in_step [of dct _ t] by (simp add: WithTree_def Process_states)
qed

lemma register_all_in_step:
  "fst (register_all dct rs t) \<noteq> Panicked ''child process must always have a function'' \<Longrightarrow>
     length (states (snd (register_all dct rs t))) + length (processes t) =
     length (processes (snd (register_all dct rs t))) + length (states t)"
proof (induction rs arbitrary: t)
  case Nil
  show ?case by simp
next
  case (Cons r rs)
  show ?case
  proof (cases "fst (register dct r t) = Returned")
    case True
    with Cons.prems have "fst (register_all dct rs (snd (register dct r t))) \<noteq>
        Panicked ''child process must always have a function''"
      by (simp add: seq_opt_cases)
    from Cons.IH [OF this] register_in_step [of dct r t] True show ?thesis
      by (simp add: seq_opt_cases)
  next
    case False
    with Cons.prems have "fst (register dct r t) \<noteq>
        Panicked ''child process must always have a function''"
      by (simp add: seq_opt_cases)
    from register_in_step [OF this] False show ?thesis
      by (simp add: seq_opt_cases)
  qed
qed

lemma Processes_appended:
  "processIndex t \<noteq> None \<Longrightarrow> list_all (\<lambda>p. p \<noteq> None) ps \<Longrightarrow>
     fst (Processes dct ps t) = Returned \<and>
     (\<exists>xs. processes (snd (Processes dct ps t)) = processes t @ xs \<and>
           map Start xs = ps \<and> list_all (\<lambda>x. Restart x = Some Permanent) xs)"
proof (induction ps arbitrary: t)
  case Nil
  show ?case by simp
next
  case (Cons p ps)
  let ?spec = "\<lparr>Name = [], Restart = Some Permanent, Start = p, Shutdown = None\<rparr>"
  let ?t1 = "snd (Process dct ?spec t)"
  let ?x = "fill_spec dct (processIndex t) (length (processes t) + 1) ?spec"
  from Cons.prems have p: "p \<noteq> None" and ps: "list_all (\<lambda>p. p \<noteq> None) ps"
    by simp_all
  from p Cons.prems(1) have ret: "fst (Process dct ?spec t) = Returned"
    by (simp add: Process_outcome)
  from p have one: "processes ?t1 = processes t @ [?x]"
    by (simp add: Process_processes)
  from Cons.prems(1) have "processIndex ?t1 \<noteq> None"
    by (simp add: Process_processIndex_None)
  from Cons.IH [OF this ps] have
    r: "fst (Processes dct ps ?t1) = Returned" and
    ex: "\<exists>xs. processes (snd (Processes dct ps ?t1)) = processes ?t1 @ xs \<and>
           map Start xs = ps \<and> list_all (\<lambda>x. Restart x = Some Permanent) xs"
    by simp_all
  from ex obtain xs where
    xs: "processes (snd (Processes dct ps ?t1)) = processes ?t1 @ xs"
        "map Start xs = ps" "list_all (\<lambda>x. Restart x = Some Permanent) xs"
    by (elim exE conjE)
  have a: "processes (snd (Processes dct (p # ps) t)) = processes t @ (?x # xs)"
    using ret xs(1) one by (simp add: seq_opt_cases)
  have b: "map Start (?x # xs) = p # ps"
    using xs(2) by (simp add: Start_fill_spec)
  have c: "list_all (\<lambda>x. Restart x = Some Permanent) (?x # xs)"
    using xs(3) by (simp add: Restart_fill_spec)
  have d: "fst (Processes dct (p # ps) t) = Returned"
    using ret r by (simp add: seq_opt_cases)
  from a b c have "\<exists>xs. processes (snd (Processes dct (p # ps) t)) = processes t @ xs \<and>
           map Start xs = p # ps \<and> list_all (\<lambda>x. Restart x = Some Permanent) xs"
    by (intro exI [of _ "?x # xs"] conjI)
  with d show ?case by (rule conjI)
qed

section \<open>The claims\<close>

text \<open>
  Claim C1 (names of the registered children are pairwise distinct). \<^verbatim>\<open>Process\<close>
  tests the name against the index once and appends the child number once; it does not
  test the suffixed name. On a tree with no children, registering the names
  \<^verbatim>\<open>"a 3"\<close>, \<^verbatim>\<open>"a"\<close>, \<^verbatim>\<open>"a"\<close> in this order returns normally three times; the
  third name collides with the second, becomes \<^verbatim>\<open>"a 3"\<close>, and the list of children
  then carries \<^verbatim>\<open>"a 3"\<close> twice.
\<close>

theorem Process_suffixed_name_collides:
  "fst (register_all (5 * Second)
          [CallProcess \<lparr>Name = ''a 3'', Restart = None, Start = Some (UserFunc ()), Shutdown = None\<rparr>,
           CallProcess \<lparr>Name = ''a'', Restart = None, Start = Some (UserFunc ()), Shutdown = None\<rparr>,
           CallProcess \<lparr>Name = ''a'', Restart = None, Start = Some (UserFunc ()), Shutdown = None\<rparr>]
          (empty_tree :: unit Tree)) = Returned \<and>
   map Name (processes (snd (register_all (5 * Second)
          [CallProcess \<lparr>Name = ''a 3'', Restart = None, Start = Some (UserFunc ()), Shutdown = None\<rparr>,
           CallProcess \<lparr>Name = ''a'', Restart = None, Start = Some (UserFunc ()), Shutdown = None\<rparr>,
           CallProcess \<lparr>Name = ''a'', Restart = None, Start = Some (UserFunc ()), Shutdown = None\<rparr>]
          (empty_tree :: unit Tree)))) = [''a 3'', ''a'', ''a 3''] \<and>
   \<not> distinct (map Name (processes (snd (register_all (5 * Second)
          [CallProcess \<lparr>Name = ''a 3'', Restart = None, Start = Some (UserFunc ()), Shutdown = None\<rparr>,
           CallProcess \<lparr>Name = ''a'', Restart = None, Start = Some (UserFunc ()), Shutdown = None\<rparr>,
           CallProcess \<lparr>Name = ''a'', Restart = None, Start = Some (UserFunc ()), Shutdown = None\<rparr>]
          (empty_tree :: unit Tree)))))"
  by (simp add: seq_opt_def Process_def fill_spec_def Let_def has_key_def empty_tree_def
      itoa.simps)

text \<open>
  Claim C2 (a specification without a start function panics at registration). Whatever
  the tree and the other fields of the specification, \<^verbatim>\<open>Process\<close> panics with the
  message of the source, and the tree it leaves has the child list and the index it had
  before the call: the specification was not added.
\<close>

theorem Process_without_Start_panics:
  "Start spec = None \<Longrightarrow>
     fst (Process dct spec t) = Panicked ''child process must always have a function'' \<and>
     processes (snd (Process dct spec t)) = processes t \<and>
     processIndex (snd (Process dct spec t)) = processIndex t"
  by (simp add: Process_def Let_def Start_fill_spec)

theorem Process_without_Start_panics_witness:
  "Start \<lparr>Name = ''worker'', Restart = Some Transient, Start = (None :: unit ChildProcess option),
          Shutdown = Some Infinity\<rparr> = None \<and>
   fst (Process (5 * Second)
          \<lparr>Name = ''worker'', Restart = Some Transient, Start = None, Shutdown = Some Infinity\<rparr>
          (empty_tree :: unit Tree)) = Panicked ''child process must always have a function'' \<and>
   processes (snd (Process (5 * Second)
          \<lparr>Name = ''worker'', Restart = Some Transient, Start = None, Shutdown = Some Infinity\<rparr>
          (empty_tree :: unit Tree))) = []"
  using Process_without_Start_panics [where dct = "5 * Second" and t = "empty_tree :: unit Tree"
      and spec = "\<lparr>Name = ''worker'', Restart = Some Transient, Start = None,
                    Shutdown = Some Infinity\<rparr>"]
  by (simp add: empty_tree_def)

text \<open>
  Claim C3 (the restart policy defaults to Permanent). A specification with a start
  function and no restart policy is appended as the last child, after the children
  already there, and the appended specification has the restart policy Permanent.
\<close>

theorem Process_default_Restart:
  "Restart spec = None \<Longrightarrow> Start spec \<noteq> None \<Longrightarrow>
     butlast (processes (snd (Process dct spec t))) = processes t \<and>
     processes (snd (Process dct spec t)) \<noteq> [] \<and>
     Restart (last (processes (snd (Process dct spec t)))) = Some Permanent"
  by (auto simp: Process_processes Restart_fill_spec)

theorem Process_default_Restart_witness:
  "Restart \<lparr>Name = ''worker'', Restart = None, Start = Some (UserFunc ()),
            Shutdown = Some Infinity\<rparr> = None \<and>
   Start \<lparr>Name = ''worker'', Restart = None, Start = Some (UserFunc ()),
            Shutdown = Some Infinity\<rparr> \<noteq> None \<and>
   Restart (last (processes (snd (Process (5 * Second)
      \<lparr>Name = ''worker'', Restart = None, Start = Some (UserFunc ()), Shutdown = Some Infinity\<rparr>
      (empty_tree :: unit Tree))))) = Some Permanent"
  using Process_default_Restart [where dct = "5 * Second" and t = "empty_tree :: unit Tree"
      and spec = "\<lparr>Name = ''worker'', Restart = None, Start = Some (UserFunc ()),
                    Shutdown = Some Infinity\<rparr>"]
  by simp

text \<open>
  Claim C4 (the shutdown policy defaults to Timeout with the default duration). A
  specification with a start function and no shutdown policy is appended as the last
  child, and the appended specification has the shutdown policy
  \<^verbatim>\<open>Timeout(DefaultChildProcessTimeout)\<close>.
\<close>

theorem Process_default_Shutdown:
  "Shutdown spec = None \<Longrightarrow> Start spec \<noteq> None \<Longrightarrow>
     butlast (processes (snd (Process dct spec t))) = processes t \<and>
     processes (snd (Process dct spec t)) \<noteq> [] \<and>
     Shutdown (last (processes (snd (Process dct spec t)))) = Some (Timeout dct)"
  by (auto simp: Process_processes Shutdown_fill_spec)

theorem Process_default_Shutdown_witness:
  "Shutdown \<lparr>Name = ''worker'', Restart = Some Temporary, Start = Some (UserFunc ()),
            Shutdown = None\<rparr> = None \<and>
   Start \<lparr>Name = ''worker'', Restart = Some Temporary, Start = Some (UserFunc ()),
            Shutdown = None\<rparr> \<noteq> None \<and>
   Shutdown (last (processes (snd (Process (5 * Second)
      \<lparr>Name = ''worker'', Restart = Some Temporary, Start = Some (UserFunc ()), Shutdown = None\<rparr>
      (empty_tree :: unit Tree))))) = Some (Timeout (5 * Second))"
  using Process_default_Shutdown [where dct = "5 * Second" and t = "empty_tree :: unit Tree"
      and spec = "\<lparr>Name = ''worker'', Restart = Some Temporary, Start = Some (UserFunc ()),
                    Shutdown = None\<rparr>"]
  by simp

text \<open>
  Claim C5 (registration only appends). With a start function, \<^verbatim>\<open>Process\<close> leaves a
  child list that is the old one followed by exactly one specification. For every
  specification, argument list, sub-tree and sequence of registrations, also those that
  panic, the old child list is a prefix of the new one: no child is removed, changed or
  moved.
\<close>

theorem registration_appends_only:
  "(Start spec \<noteq> None \<longrightarrow>
      (\<exists>x. processes (snd (Process dct spec t)) = processes t @ [x])) \<and>
   prefix (processes t) (processes (snd (Process dct spec t))) \<and>
   prefix (processes t) (processes (snd (Processes dct ps t))) \<and>
   prefix (processes t) (processes (snd (WithTree dct subTree t))) \<and>
   prefix (processes t) (processes (snd (register_all dct rs t)))"
  using Process_prefix [of t dct spec] Processes_prefix [of t dct ps]
    Process_prefix [of t dct] register_all_prefix [of t dct rs]
  by (simp add: Process_processes WithTree_def)

theorem registration_appends_only_witness:
  "Start \<lparr>Name = ''b'', Restart = None, Start = Some (UserFunc ()), Shutdown = None\<rparr> \<noteq> None \<and>
   map Name (processes (snd (Process (5 * Second)
       \<lparr>Name = ''b'', Restart = None, Start = Some (UserFunc ()), Shutdown = None\<rparr>
       (snd (Process (5 * Second)
          \<lparr>Name = ''a'', Restart = None, Start = Some (UserFunc ()), Shutdown = None\<rparr>
          (empty_tree :: unit Tree)))))) = [''a'', ''b''] \<and>
   (\<exists>x. processes (snd (Process (5 * Second)
       \<lparr>Name = ''b'', Restart = None, Start = Some (UserFunc ()), Shutdown = None\<rparr>
       (snd (Process (5 * Second)
          \<lparr>Name = ''a'', Restart = None, Start = Some (UserFunc ()), Shutdown = None\<rparr>
          (empty_tree :: unit Tree))))) =
      processes (snd (Process (5 * Second)
          \<lparr>Name = ''a'', Restart = None, Start = Some (UserFunc ()), Shutdown = None\<rparr>
          (empty_tree :: unit Tree))) @ [x])"
  using registration_appends_only [where dct = "5 * Second"
      and spec = "\<lparr>Name = ''b'', Restart = None, Start = Some (UserFunc ()), Shutdown = None\<rparr>"
      and t = "snd (Process (5 * Second)
          \<lparr>Name = ''a'', Restart = None, Start = Some (UserFunc ()), Shutdown = None\<rparr>
          (empty_tree :: unit Tree))" and ps = "[]" and subTree = 0 and rs = "[]"]
  by (simp add: Process_def fill_spec_def Let_def has_key_def empty_tree_def)

text \<open>
  Claim C6 (\<^verbatim>\<open>NeverHalt\<close> sets \<^verbatim>\<open>maxR\<close> to \<open>-1\<close> and nothing else). The option
  returns, \<^verbatim>\<open>maxR\<close> is \<open>-1\<close> afterwards, and \<^verbatim>\<open>maxT\<close>, the strategy, the child
  list, the index, the runtime states, the logger and every other field of the tree are
  what they were.
\<close>

theorem NeverHalt_sets_only_maxR:
  "fst (NeverHalt t) = Returned \<and>
   maxR (snd (NeverHalt t)) = - 1 \<and>
   maxT (snd (NeverHalt t)) = maxT t \<and>
   strategy (snd (NeverHalt t)) = strategy t \<and>
   processes (snd (NeverHalt t)) = processes t \<and>
   processIndex (snd (NeverHalt t)) = processIndex t \<and>
   states (snd (NeverHalt t)) = states t \<and>
   logger (snd (NeverHalt t)) = logger t \<and>
   Tree.more (snd (NeverHalt t)) = Tree.more t"
  by (simp add: NeverHalt_def)

text \<open>
  Claim C7 (\<^verbatim>\<open>WithTree\<close> registers the sub-tree as one child). The child list after
  \<^verbatim>\<open>WithTree(subTree)\<close> is the old one followed by one specification, whose start
  function is the \<^verbatim>\<open>Start\<close> method of the sub-tree, whose shutdown policy is Infinity
  and whose restart policy is Permanent.
\<close>

theorem WithTree_registers_subtree:
  "butlast (processes (snd (WithTree dct subTree t))) = processes t \<and>
   processes (snd (WithTree dct subTree t)) \<noteq> [] \<and>
   Start (last (processes (snd (WithTree dct subTree t)))) = Some (TreeStart subTree) \<and>
   Shutdown (last (processes (snd (WithTree dct subTree t)))) = Some Infinity \<and>
   Restart (last (processes (snd (WithTree dct subTree t)))) = Some Permanent"
  by (simp add: WithTree_def Process_processes Start_fill_spec Shutdown_fill_spec
      Restart_fill_spec)

text \<open>
  Claim C8 (\<^verbatim>\<open>Processes\<close> appends its arguments in order, each Permanent). Writing to
  a \<^verbatim>\<open>nil\<close> map panics: on a tree with no children whose index map was never
  allocated, \<^verbatim>\<open>Processes\<close> with two functions appends the first child, panics at the
  index write of that first \<^verbatim>\<open>Process\<close> call and never reaches the second function.
\<close>

theorem Processes_stops_on_nil_index:
  "fst (Processes (5 * Second) [Some (UserFunc (1::nat)), Some (UserFunc 2)]
          \<lparr>maxR = 1, maxT = 5 * Second, strategy = None, processes = [],
             processIndex = None, states = [], logger = None\<rparr>) =
     Panicked ''assignment to entry in nil map'' \<and>
   map Start (processes (snd (Processes (5 * Second)
          [Some (UserFunc (1::nat)), Some (UserFunc 2)]
          \<lparr>maxR = 1, maxT = 5 * Second, strategy = None, processes = [],
             processIndex = None, states = [], logger = None\<rparr>))) =
     [Some (UserFunc 1)]"
  by (simp add: seq_opt_def Process_def fill_spec_def Let_def has_key_def itoa.simps)

text \<open>
  Claim C8, on a tree whose index map is allocated. For functions that are all present,
  \<^verbatim>\<open>Processes\<close> returns; the children registered before are the first children
  afterwards, unchanged; the children after them have the arguments as start functions,
  one each and in argument order, and all have the restart policy Permanent.
\<close>

theorem Processes_appends_in_order:
  "processIndex t \<noteq> None \<Longrightarrow> list_all (\<lambda>p. p \<noteq> None) ps \<Longrightarrow>
     fst (Processes dct ps t) = Returned \<and>
     take (length (processes t)) (processes (snd (Processes dct ps t))) = processes t \<and>
     map Start (drop (length (processes t)) (processes (snd (Processes dct ps t)))) = ps \<and>
     list_all (\<lambda>x. Restart x = Some Permanent)
       (drop (length (processes t)) (processes (snd (Processes dct ps t))))"
proof -
  assume "processIndex t \<noteq> None" and "list_all (\<lambda>p. p \<noteq> None) ps"
  from Processes_appended [OF this, of dct] obtain xs where
    "fst (Processes dct ps t) = Returned"
    "processes (snd (Processes dct ps t)) = processes t @ xs"
    "map Start xs = ps" "list_all (\<lambda>x. Restart x = Some Permanent) xs"
    by (elim exE conjE)
  then show ?thesis by simp
qed

theorem Processes_appends_in_order_witness:
  "processIndex (snd (Process (5 * Second)
       \<lparr>Name = ''first'', Restart = Some Temporary, Start = Some (UserFunc (0::nat)),
          Shutdown = None\<rparr> (empty_tree :: nat Tree))) \<noteq> None \<and>
   list_all (\<lambda>p. p \<noteq> None) [Some (UserFunc (1::nat)), Some (UserFunc 2)] \<and>
   fst (Processes (5 * Second) [Some (UserFunc 1), Some (UserFunc 2)]
     (snd (Process (5 * Second)
       \<lparr>Name = ''first'', Restart = Some Temporary, Start = Some (UserFunc (0::nat)),
          Shutdown = None\<rparr> (empty_tree :: nat Tree)))) = Returned \<and>
   map Start (processes (snd (Processes (5 * Second) [Some (UserFunc 1), Some (UserFunc 2)]
     (snd (Process (5 * Second)
       \<lparr>Name = ''first'', Restart = Some Temporary, Start = Some (UserFunc (0::nat)),
          Shutdown = None\<rparr> (empty_tree :: nat Tree)))))) =
     [Some (UserFunc 0), Some (UserFunc 1), Some (UserFunc 2)] \<and>
   map Restart (processes (snd (Processes (5 * Second) [Some (UserFunc 1), Some (UserFunc 2)]
     (snd (Process (5 * Second)
       \<lparr>Name = ''first'', Restart = Some Temporary, Start = Some (UserFunc (0::nat)),
          Shutdown = None\<rparr> (empty_tree :: nat Tree)))))) =
     [Some Temporary, Some Permanent, Some Permanent]"
  using Processes_appends_in_order [where dct = "5 * Second"
      and ps = "[Some (UserFunc (1::nat)), Some (UserFunc 2)]"
      and t = "snd (Process (5 * Second)
       \<lparr>Name = ''first'', Restart = Some Temporary, Start = Some (UserFunc (0::nat)),
          Shutdown = None\<rparr> (empty_tree :: nat Tree))"]
  by (simp add: seq_opt_def Process_def fill_spec_def Let_def has_key_def empty_tree_def
      itoa.simps)

text \<open>
  Claim C9 (one runtime state per registered child). \<^verbatim>\<open>Process\<close> appends the
  runtime state first and tests the start function afterwards, so the call that panics
  for want of a start function leaves a state without a child: after that single call
  on a tree with no children there is one state and no specification.
\<close>

theorem states_exceed_children_after_panic:
  "fst (register_all (5 * Second)
          [CallProcess \<lparr>Name = ''w'', Restart = None, Start = None, Shutdown = None\<rparr>]
          (empty_tree :: unit Tree)) = Panicked ''child process must always have a function'' \<and>
   length (states (snd (register_all (5 * Second)
          [CallProcess \<lparr>Name = ''w'', Restart = None, Start = None, Shutdown = None\<rparr>]
          (empty_tree :: unit Tree)))) = 1 \<and>
   length (processes (snd (register_all (5 * Second)
          [CallProcess \<lparr>Name = ''w'', Restart = None, Start = None, Shutdown = None\<rparr>]
          (empty_tree :: unit Tree)))) = 0"
  by (simp add: seq_opt_def Process_def fill_spec_def Let_def has_key_def empty_tree_def)

text \<open>
  Claim C9, for the calls that do not panic for want of a start function. Such a
  \<^verbatim>\<open>Process\<close> call has appended exactly one runtime state, the one whose \<^verbatim>\<open>stop\<close>
  reports that the child was stopped before it started, and exactly one specification.
  Hence a sequence of \<^verbatim>\<open>Process\<close>, \<^verbatim>\<open>Processes\<close> and \<^verbatim>\<open>WithTree\<close> calls that does
  not end in that panic, applied to a tree with as many states as specifications, leaves
  a tree with as many states as specifications.
\<close>

theorem registration_keeps_states_in_step:
  "(fst (Process dct spec t) \<noteq> Panicked ''child process must always have a function'' \<longrightarrow>
      states (snd (Process dct spec t)) =
        states t @ [\<lparr>stop = Some (LogPrintln ''stopped before start'')\<rparr>] \<and>
      length (processes (snd (Process dct spec t))) = Suc (length (processes t))) \<and>
   (length (states t) = length (processes t) \<longrightarrow>
    fst (register_all dct rs t) \<noteq> Panicked ''child process must always have a function'' \<longrightarrow>
      length (states (snd (register_all dct rs t))) =
      length (processes (snd (register_all dct rs t))))"
  using Process_in_step [of dct spec t] register_all_in_step [of dct rs t]
  by (auto simp: Process_states)

theorem registration_keeps_states_in_step_witness:
  "fst (Process (5 * Second)
      \<lparr>Name = ''w'', Restart = None, Start = Some (UserFunc ()), Shutdown = None\<rparr>
      (empty_tree :: unit Tree)) \<noteq> Panicked ''child process must always have a function'' \<and>
   length (states (empty_tree :: unit Tree)) = length (processes (empty_tree :: unit Tree)) \<and>
   fst (register_all (5 * Second)
      [CallProcess \<lparr>Name = ''w'', Restart = None, Start = Some (UserFunc ()), Shutdown = None\<rparr>,
       CallProcesses [Some (UserFunc ()), Some (UserFunc ())],
       CallWithTree 7] (empty_tree :: unit Tree)) = Returned \<and>
   length (states (snd (Process (5 * Second)
      \<lparr>Name = ''w'', Restart = None, Start = Some (UserFunc ()), Shutdown = None\<rparr>
      (empty_tree :: unit Tree)))) = 1 \<and>
   length (processes (snd (Process (5 * Second)
      \<lparr>Name = ''w'', Restart = None, Start = Some (UserFunc ()), Shutdown = None\<rparr>
      (empty_tree :: unit Tree)))) = 1 \<and>
   length (states (snd (register_all (5 * Second)
      [CallProcess \<lparr>Name = ''w'', Restart = None, Start = Some (UserFunc ()), Shutdown = None\<rparr>,
       CallProcesses [Some (UserFunc ()), Some (UserFunc ())],
       CallWithTree 7] (empty_tree :: unit Tree)))) = 4 \<and>
   length (processes (snd (register_all (5 * Second)
      [CallProcess \<lparr>Name = ''w'', Restart = None, Start = Some (UserFunc ()), Shutdown = None\<rparr>,
       CallProcesses [Some (UserFunc ()), Some (UserFunc ())],
       CallWithTree 7] (empty_tree :: unit Tree)))) = 4"
  using registration_keeps_states_in_step [where dct = "5 * Second"
      and spec = "\<lparr>Name = ''w'', Restart = None, Start = Some (UserFunc ()), Shutdown = None\<rparr>"
      and t = "empty_tree :: unit Tree"
      and rs = "[CallProcess \<lparr>Name = ''w'', Restart = None, Start = Some (UserFunc ()),
                   Shutdown = None\<rparr>,
                 CallProcesses [Some (UserFunc ()), Some (UserFunc ())],
                 CallWithTree 7]"]
  by (simp add: seq_opt_def WithTree_def Process_def fill_spec_def Let_def has_key_def
      empty_tree_def itoa.simps)

text \<open>
  Claim C10 (\<^verbatim>\<open>WithSpecification\<close> is \<^verbatim>\<open>WithRestartIntensity\<close> followed by
  \<^verbatim>\<open>WithRestartStrategy\<close>). \<^verbatim>\<open>WithRestartIntensity\<close> returns, and applying
  \<^verbatim>\<open>WithRestartStrategy\<close> to the tree it leaves gives the result of
  \<^verbatim>\<open>WithSpecification\<close>: the tree with the three fields set.
\<close>

theorem WithSpecification_is_intensity_then_strategy:
  "fst (WithRestartIntensity r d t) = Returned \<and>
   WithSpecification r d s t = WithRestartStrategy s (snd (WithRestartIntensity r d t)) \<and>
   WithSpecification r d s t = (Returned, t\<lparr>maxR := r, maxT := d, strategy := s\<rparr>)"
  by (simp add: WithSpecification_def seq_opt_def WithRestartIntensity_def
      WithRestartStrategy_def)

end
